theory Spec2Isabelle
  imports Main "HOL-Library.Char_ord" "HOL-Library.List_Lexorder"
begin

section \<open>Pod sandbox metadata store (pkg/metadata/sandboxes.go)\<close>

text \<open>
  A shallow embedding of \<^verbatim>\<open>pkg/metadata/sandboxes.go\<close>. Go's \<^verbatim>\<open>(value, error)\<close> results
  are pairs whose second component is an \<open>error option\<close> (\<open>None\<close> is Go's \<^verbatim>\<open>nil\<close> error),
  a nil pointer is \<open>None\<close>, and a nil slice is the empty list. The shared bolt handle is
  passed explicitly: every operation takes the database and \<^verbatim>\<open>Save\<close> returns the new one.
\<close>

subsection \<open>Errors\<close>

text \<open>
  The Go code builds its errors from message strings. Each message of the file is one
  constructor, named after the error kind of the specification:
  \<^item> \<open>InvalidArgument\<close> is \<^verbatim>\<open>errors.New("Pod sandbox ID cannot be empty")\<close>;
  \<^item> \<open>NotFound podID\<close> is \<^verbatim>\<open>fmt.Errorf("pod sandbox %q does not exist", podID)\<close>;
  \<^item> \<open>DataInconsistency podID\<close> is \<^verbatim>\<open>fmt.Errorf("no data found for pod id %q", podID)\<close>;
  \<^item> \<open>ErrBucketNotFound\<close>, \<open>ErrBucketNameRequired\<close>, \<open>ErrKeyRequired\<close> are bolt's errors;
  \<^item> \<open>ErrorString msg\<close> is any other error value (of the JSON codec, of an updater);
  \<^item> \<open>Panic msg\<close> stands for a run-time panic (a nil bucket dereferenced), which is not an
    error value in Go; it is kept so that the model is total.
\<close>

datatype error =
    InvalidArgument
  | NotFound string
  | DataInconsistency string
  | ErrBucketNotFound
  | ErrBucketNameRequired
  | ErrKeyRequired
  | ErrorString string
  | Panic string

subsection \<open>The records stored\<close>

text \<open>
  Modelled from the spec: the types of \<^verbatim>\<open>pkg/metadata/types\<close> (\<^verbatim>\<open>PodSandboxInfo\<close>,
  \<^verbatim>\<open>PodSandboxConfig\<close>, \<^verbatim>\<open>PodSandboxState\<close>, \<^verbatim>\<open>PodSandboxFilter\<close>) are not part of the
  source file. A record has a sandbox id, an enumerated lifecycle state and a configuration
  holding a label map; every other payload field is opaque and lives in the extension
  part of the record scheme. A filter has an exact-id constraint (the empty string when
  unset), an optional state and a label selector (a set of field/value pairs, empty when
  unset). The configuration of a record is always present.
\<close>

datatype PodSandboxState = SANDBOX_READY | SANDBOX_NOTREADY

record PodSandboxConfig =
  Labels :: "(string \<times> string) list"

record PodSandboxInfo =
  PodID :: string
  State :: PodSandboxState
  Config :: PodSandboxConfig

record PodSandboxFilter =
  Id :: string
  FilterState :: "PodSandboxState option"
  LabelSelector :: "(string \<times> string) list"

subsection \<open>The bolt store\<close>

text \<open>
  The root of a bolt database maps bucket names to buckets, and a bucket maps keys to
  values; both are B+trees read in byte order of their keys. They are association lists
  kept in ascending key order (\<^verbatim>\<open>bytes.Compare\<close> is the lexicographic order of \<open>char list\<close>).
  A \<^verbatim>\<open>*bolt.Bucket\<close> obtained inside a transaction is the name of the bucket in that
  transaction's root. Failures of the storage layer itself (I/O, size limits, a closed
  transaction) are outside the model.
\<close>

type_synonym bytes = string
type_synonym bucket = "(bytes \<times> bytes) list"
type_synonym tx = "(bytes \<times> bucket) list"

fun kv_put :: "bytes \<Rightarrow> 'v \<Rightarrow> (bytes \<times> 'v) list \<Rightarrow> (bytes \<times> 'v) list" where
  "kv_put k v [] = [(k, v)]"
| "kv_put k v ((k', v') # kvs) =
     (if k = k' then (k, v) # kvs
      else if k < k' then (k, v) # (k', v') # kvs
      else (k', v') # kv_put k v kvs)"

definition kv_delete :: "bytes \<Rightarrow> (bytes \<times> 'v) list \<Rightarrow> (bytes \<times> 'v) list" where
  "kv_delete k kvs = filter (\<lambda>kv. fst kv \<noteq> k) kvs"

definition Bucket :: "tx \<Rightarrow> bytes \<Rightarrow> bytes option" where
  "Bucket t name = (case map_of t name of None \<Rightarrow> None | Some b \<Rightarrow> Some name)"

definition CreateBucketIfNotExists :: "tx \<Rightarrow> bytes \<Rightarrow> (bytes option \<times> error option) \<times> tx" where
  "CreateBucketIfNotExists t name =
     (if name = [] then ((None, Some ErrBucketNameRequired), t)
      else case map_of t name of
             Some b \<Rightarrow> ((Some name, None), t)
           | None \<Rightarrow> ((Some name, None), kv_put name [] t))"

definition DeleteBucket :: "tx \<Rightarrow> bytes \<Rightarrow> error option \<times> tx" where
  "DeleteBucket t name =
     (case map_of t name of
        None \<Rightarrow> (Some ErrBucketNotFound, t)
      | Some b \<Rightarrow> (None, kv_delete name t))"

definition bucket_Get :: "tx \<Rightarrow> bytes \<Rightarrow> bytes \<Rightarrow> bytes option" where
  "bucket_Get t name k = (case map_of t name of None \<Rightarrow> None | Some b \<Rightarrow> map_of b k)"

definition bucket_Put :: "tx \<Rightarrow> bytes \<Rightarrow> bytes \<Rightarrow> bytes \<Rightarrow> error option \<times> tx" where
  "bucket_Put t name k v =
     (if k = [] then (Some ErrKeyRequired, t)
      else case map_of t name of
             None \<Rightarrow> (Some ErrBucketNotFound, t)
           | Some b \<Rightarrow> (None, kv_put name (kv_put k v b) t))"

text \<open>
  \<^verbatim>\<open>db.View\<close> runs its function on the current state and returns what the function
  returns. \<^verbatim>\<open>db.Update\<close> commits the function's writes when it returns no error and
  rolls all of them back otherwise.
\<close>

definition View :: "tx \<Rightarrow> (tx \<Rightarrow> 'a \<times> error option) \<Rightarrow> 'a \<times> error option" where
  "View db fn = fn db"

definition Update :: "tx \<Rightarrow> (tx \<Rightarrow> error option \<times> tx) \<Rightarrow> error option \<times> tx" where
  "Update db fn = (case fn db of (None, t) \<Rightarrow> (None, t) | (Some err, t) \<Rightarrow> (Some err, db))"

text \<open>
  The cursor of the root bucket: \<^verbatim>\<open>Seek\<close> moves to the first key not below the one sought,
  and what is returned is the list of entries from there on, which \<^verbatim>\<open>Next\<close> walks.
\<close>

definition Seek :: "tx \<Rightarrow> bytes \<Rightarrow> tx" where
  "Seek t k = dropWhile (\<lambda>kv. fst kv < k) t"

definition HasPrefix :: "bytes \<Rightarrow> bytes \<Rightarrow> bool" where
  "HasPrefix s p = (length p \<le> length s \<and> take (length p) s = p)"

subsection \<open>The JSON codec\<close>

text \<open>
  \<^verbatim>\<open>json.Marshal\<close> and \<^verbatim>\<open>json.Unmarshal\<close> are parameters of the functions that call them.
  \<open>Marshal psi\<close> returns the bytes and an error. \<open>Unmarshal data\<close> returns the pointer that
  \<^verbatim>\<open>json.Unmarshal(data, psi)\<close> leaves in \<^verbatim>\<open>*psi\<close> when \<^verbatim>\<open>*psi\<close> was nil before the call (it is in
  both callers), and the error: the JSON \<^verbatim>\<open>null\<close> leaves a nil pointer without an error.
\<close>

type_synonym 'z marshal = "'z PodSandboxInfo_scheme \<Rightarrow> bytes \<times> error option"
type_synonym 'z unmarshal = "bytes \<Rightarrow> 'z PodSandboxInfo_scheme option \<times> error option"
type_synonym 'z updater =
  "'z PodSandboxInfo_scheme option \<Rightarrow> 'z PodSandboxInfo_scheme option \<times> error option"

subsection \<open>sandboxes.go\<close>

definition sandboxKeyPrefix :: bytes where
  "sandboxKeyPrefix = ''sandboxes/''"

definition sandboxDataBucket :: bytes where
  "sandboxDataBucket = ''data''"

text \<open>
  \<^verbatim>\<open>sandboxKey\<close> appends the id to the prefix slice; the result is taken as a slice of its
  own (what two calls share of the backing array is not modelled).
\<close>

definition sandboxKey :: "string \<Rightarrow> bytes" where
  "sandboxKey sandboxID = sandboxKeyPrefix @ sandboxID"

text \<open>\<^verbatim>\<open>podSandboxMeta\<close>: the client is the database passed to each operation.\<close>

datatype podSandboxMeta = PodSandboxMeta (GetID: string)

definition getSandboxBucket ::
  "tx \<Rightarrow> string \<Rightarrow> bool \<Rightarrow> bool \<Rightarrow> (bytes option \<times> error option) \<times> tx" where
  "getSandboxBucket t podID create optional =
     (let key = sandboxKey podID in
      if create then
        (case CreateBucketIfNotExists t key of
           ((bucket, Some err), t') \<Rightarrow> ((None, Some err), t')
         | ((bucket, None), t') \<Rightarrow> ((bucket, None), t'))
      else
        (let bucket = Bucket t key in
         if bucket = None \<and> \<not> optional then ((None, Some (NotFound podID)), t)
         else ((bucket, None), t)))"

definition retrieveSandboxFromDB ::
  "'z unmarshal \<Rightarrow> tx \<Rightarrow> bytes option \<Rightarrow> 'z PodSandboxInfo_scheme option \<times> error option" where
  "retrieveSandboxFromDB Unmarshal t bucket =
     (case bucket of
        None \<Rightarrow> (None, Some (Panic ''nil pointer dereference''))
      | Some b \<Rightarrow>
          (case bucket_Get t b sandboxDataBucket of
             None \<Rightarrow> (None, None)
           | Some data \<Rightarrow> Unmarshal data))"

definition saveSandboxToDB ::
  "'z marshal \<Rightarrow> tx \<Rightarrow> bytes option \<Rightarrow> 'z PodSandboxInfo_scheme \<Rightarrow> error option \<times> tx" where
  "saveSandboxToDB Marshal t bucket psi =
     (case Marshal psi of
        (data, Some err) \<Rightarrow> (Some err, t)
      | (data, None) \<Rightarrow>
          (case bucket of
             None \<Rightarrow> (Some (Panic ''nil pointer dereference''), t)
           | Some b \<Rightarrow> bucket_Put t b sandboxDataBucket data))"

definition Retrieve ::
  "'z unmarshal \<Rightarrow> tx \<Rightarrow> podSandboxMeta \<Rightarrow> 'z PodSandboxInfo_scheme option \<times> error option" where
  "Retrieve Unmarshal db m =
     (if GetID m = [] then (None, Some InvalidArgument)
      else
        (case View db (\<lambda>t.
                case getSandboxBucket t (GetID m) False False of
                  ((bucket, Some err), t') \<Rightarrow> (None, Some err)
                | ((bucket, None), t') \<Rightarrow> retrieveSandboxFromDB Unmarshal t' bucket) of
           (Some psi, None) \<Rightarrow> (Some (psi\<lparr>PodID := GetID m\<rparr>), None)
         | (psi, err) \<Rightarrow> (psi, err)))"

definition Save ::
  "'z marshal \<Rightarrow> 'z unmarshal \<Rightarrow> tx \<Rightarrow> podSandboxMeta \<Rightarrow> 'z updater \<Rightarrow> error option \<times> tx" where
  "Save Marshal Unmarshal db m updater =
     (if GetID m = [] then (Some InvalidArgument, db)
      else
        Update db (\<lambda>t.
          let key = sandboxKey (GetID m) in
          case getSandboxBucket t (GetID m) True False of
            ((bucket, Some err), t') \<Rightarrow> (Some err, t')
          | ((bucket, None), t') \<Rightarrow>
              (case retrieveSandboxFromDB Unmarshal t' bucket of
                 (current, Some err) \<Rightarrow> (Some err, t')
               | (current, None) \<Rightarrow>
                   (case updater current of
                      (newData, Some err) \<Rightarrow> (Some err, t')
                    | (None, None) \<Rightarrow> DeleteBucket t' key
                    | (Some newData, None) \<Rightarrow> saveSandboxToDB Marshal t' bucket newData))))"

definition PodSandbox :: "string \<Rightarrow> podSandboxMeta" where
  "PodSandbox podID = PodSandboxMeta podID"

text \<open>
  Modelled from the spec: the label-selector capability (\<^verbatim>\<open>fields.SelectorFromSet\<close> and
  \<^verbatim>\<open>Matches\<close> of the Kubernetes library, not part of the source file). An unset selector
  matches every label set; otherwise each field of the selector must have its value in
  the label set, a label that is missing reading as the empty string.
\<close>

definition SelectorMatches :: "(string \<times> string) list \<Rightarrow> (string \<times> string) list \<Rightarrow> bool" where
  "SelectorMatches sel labels =
     list_all (\<lambda>fv. (case map_of labels (fst fv) of None \<Rightarrow> [] | Some v \<Rightarrow> v) = snd fv) sel"

definition filterPodSandboxMeta ::
  "'z unmarshal \<Rightarrow> tx \<Rightarrow> podSandboxMeta \<Rightarrow> PodSandboxFilter option \<Rightarrow> bool \<times> error option" where
  "filterPodSandboxMeta Unmarshal db psm flt =
     (case flt of
        None \<Rightarrow> (True, None)
      | Some f \<Rightarrow>
          if Id f \<noteq> [] \<and> GetID psm \<noteq> Id f then (False, None)
          else
            (case Retrieve Unmarshal db psm of
               (psi, Some err) \<Rightarrow> (False, Some err)
             | (None, None) \<Rightarrow> (False, Some (DataInconsistency (GetID psm)))
             | (Some psi, None) \<Rightarrow>
                 if FilterState f \<noteq> None \<and> Some (State psi) \<noteq> FilterState f then (False, None)
                 else if \<not> SelectorMatches (LabelSelector f) (Labels (Config psi)) then (False, None)
                 else (True, None)))"

text \<open>
  The loop of \<^verbatim>\<open>ListPodSandboxes\<close> over the cursor: \<open>c\<close> is what the cursor has still to
  visit, \<open>result\<close> the accessors appended so far. The pair returned is the \<open>result\<close>
  variable and the error of the transaction function.
\<close>

fun scan ::
  "'z unmarshal \<Rightarrow> tx \<Rightarrow> PodSandboxFilter option \<Rightarrow> tx \<Rightarrow> podSandboxMeta list
     \<Rightarrow> podSandboxMeta list \<times> error option" where
  "scan Unmarshal db flt [] result = (result, None)"
| "scan Unmarshal db flt ((k, v) # c) result =
     (if \<not> HasPrefix k sandboxKeyPrefix then (result, None)
      else
        (let psm = PodSandboxMeta (drop (length sandboxKeyPrefix) k) in
         case filterPodSandboxMeta Unmarshal db psm flt of
           (fv, Some err) \<Rightarrow> (result, Some err)
         | (fv, None) \<Rightarrow>
             scan Unmarshal db flt c (if fv then result @ [psm] else result)))"

definition ListPodSandboxes ::
  "'z unmarshal \<Rightarrow> tx \<Rightarrow> PodSandboxFilter option \<Rightarrow> podSandboxMeta list \<times> error option" where
  "ListPodSandboxes Unmarshal db flt =
     (case View db (\<lambda>t. scan Unmarshal t flt (Seek t sandboxKeyPrefix) []) of
        (result, Some err) \<Rightarrow> ([], Some err)
      | (result, None) \<Rightarrow> (result, None))"

subsection \<open>Notions used to state the properties\<close>

text \<open>
  The payload bytes held for a sandbox id (\<open>None\<close> when the region or its payload slot is
  absent), and what decoding them gives: the \<open>current\<close> value \<^verbatim>\<open>Save\<close> hands to the updater.
\<close>

definition stored :: "tx \<Rightarrow> string \<Rightarrow> bytes option" where
  "stored db i = bucket_Get db (sandboxKey i) sandboxDataBucket"

definition decode_stored ::
  "'z unmarshal \<Rightarrow> tx \<Rightarrow> string \<Rightarrow> 'z PodSandboxInfo_scheme option \<times> error option" where
  "decode_stored Unmarshal db i =
     (case stored db i of None \<Rightarrow> (None, None) | Some data \<Rightarrow> Unmarshal data)"

text \<open>
  The entries the cursor loop visits, the accessor built for an entry, and the accessors
  of all regions under the namespace prefix, in key order.
\<close>

definition scanned :: "tx \<Rightarrow> tx" where
  "scanned db = takeWhile (\<lambda>kv. HasPrefix (fst kv) sandboxKeyPrefix) (Seek db sandboxKeyPrefix)"

definition accessor :: "bytes \<times> bucket \<Rightarrow> podSandboxMeta" where
  "accessor kv = PodSandboxMeta (drop (length sandboxKeyPrefix) (fst kv))"

definition stored_sandboxes :: "tx \<Rightarrow> podSandboxMeta list" where
  "stored_sandboxes db = map accessor (filter (\<lambda>kv. HasPrefix (fst kv) sandboxKeyPrefix) db)"

subsection \<open>Concrete stores, records and a codec for the examples\<close>

text \<open>
  A small codec standing in for JSON on the examples: it writes the state of a record
  and nothing else, reads \<^verbatim>\<open>null\<close> as a nil pointer, and rejects every other input.
\<close>

definition example_Marshal :: "unit marshal" where
  "example_Marshal psi =
     (case State psi of SANDBOX_READY \<Rightarrow> ''ready'' | SANDBOX_NOTREADY \<Rightarrow> ''notready'', None)"

definition example_Unmarshal :: "unit unmarshal" where
  "example_Unmarshal data =
     (if data = ''null'' then (None, None)
      else if data = ''ready'' then
        (Some \<lparr>PodID = [], State = SANDBOX_READY, Config = \<lparr>Labels = []\<rparr>\<rparr>, None)
      else if data = ''notready'' then
        (Some \<lparr>PodID = [], State = SANDBOX_NOTREADY, Config = \<lparr>Labels = []\<rparr>\<rparr>, None)
      else (None, Some (ErrorString ''invalid character'')))"

definition put_updater :: "PodSandboxInfo \<Rightarrow> unit updater" where
  "put_updater R current = (Some R, None)"

definition delete_updater :: "unit updater" where
  "delete_updater current = (None, None)"

definition fail_updater :: "error \<Rightarrow> unit updater" where
  "fail_updater e current = (None, Some e)"

definition rec_ready :: PodSandboxInfo where
  "rec_ready = \<lparr>PodID = ''tmp'', State = SANDBOX_READY, Config = \<lparr>Labels = []\<rparr>\<rparr>"

definition empty_filter :: PodSandboxFilter where
  "empty_filter = \<lparr>Id = [], FilterState = None, LabelSelector = []\<rparr>"

definition zzz_filter :: PodSandboxFilter where
  "zzz_filter = \<lparr>Id = ''zzz'', FilterState = None, LabelSelector = []\<rparr>"

definition db_example :: tx where
  "db_example =
     [(''containers/c1'', [(''data'', ''x'')]),
      (''sandboxes/a'', [(''data'', ''ready'')]),
      (''sandboxes/b'', [(''data'', ''notready'')])]"

definition db_corrupt :: tx where
  "db_corrupt = [(''sandboxes/a'', [(''data'', ''garbage'')])]"

definition db_mixed :: tx where
  "db_mixed =
     [(''sandboxes/a'', [(''data'', ''ready'')]),
      (''sandboxes/b'', [(''data'', ''garbage'')])]"

definition db_empty_slot :: tx where
  "db_empty_slot =
     [(''sandboxes/a'', [(''data'', ''ready'')]),
      (''sandboxes/b'', []),
      (''sandboxes/c'', [(''data'', ''ready'')])]"

section \<open>Properties of the store\<close>

subsection \<open>Association lists\<close>

lemma map_of_kv_put: "map_of (kv_put k v kvs) k' = (if k' = k then Some v else map_of kvs k')"
  by (induction kvs) auto

lemma map_of_kv_delete: "map_of (kv_delete k kvs) k' = (if k' = k then None else map_of kvs k')"
  by (induction kvs) (auto simp: kv_delete_def)

lemma kv_delete_absent: "map_of kvs k = None \<Longrightarrow> kv_delete k kvs = kvs"
  by (induction kvs) (auto simp: kv_delete_def split: if_splits)

lemma kv_delete_kv_put: "kv_delete k (kv_put k v kvs) = kv_delete k kvs"
  by (induction kvs) (auto simp: kv_delete_def)

lemma kv_put_kv_put: "kv_put k v (kv_put k w kvs) = kv_put k v kvs"
  by (induction kvs) auto

text \<open>Both writes keep the keys in strictly ascending order.\<close>

lemma set_kv_put: "fst ` set (kv_put k v kvs) = insert k (fst ` set kvs)"
proof (induction kvs)
  case Nil
  then show ?case by simp
next
  case (Cons x kvs)
  obtain k' v' where x: "x = (k', v')" by (cases x)
  show ?case
  proof (cases "k = k'")
    case True
    with x show ?thesis by simp
  next
    case False
    with x Cons show ?thesis by (cases "k < k'") (simp_all add: insert_commute)
  qed
qed

lemma kv_put_ascending:
  "sorted_wrt (<) (map fst kvs) \<Longrightarrow> sorted_wrt (<) (map fst (kv_put k v kvs))"
proof (induction kvs)
  case Nil
  then show ?case by simp
next
  case (Cons x kvs)
  obtain k' v' where x: "x = (k', v')" by (cases x)
  have "k' < y" if "y \<in> fst ` set (kv_put k v kvs)" "\<not> k < k'" "k \<noteq> k'" for y
    using that Cons.prems x unfolding set_kv_put by auto
  with Cons x show ?case by (auto simp: image_iff)
qed

lemma kv_delete_ascending:
  "sorted_wrt (<) (map fst kvs) \<Longrightarrow> sorted_wrt (<) (map fst (kv_delete k kvs))"
  by (induction kvs) (auto simp: kv_delete_def)

subsection \<open>Keys and prefixes\<close>

lemma sandboxKey_eq_iff: "sandboxKey x = sandboxKey y \<longleftrightarrow> x = y"
  by (simp add: sandboxKey_def)

lemma sandboxKey_not_Nil: "sandboxKey x \<noteq> []"
  by (simp add: sandboxKey_def sandboxKeyPrefix_def)

lemma sandboxDataBucket_not_Nil: "sandboxDataBucket \<noteq> []"
  by (simp add: sandboxDataBucket_def)

lemma HasPrefix_iff: "HasPrefix s p \<longleftrightarrow> (\<exists>r. s = p @ r)"
  unfolding HasPrefix_def
  by (metis append_eq_conv_conj append_take_drop_id le_add1 length_append)

lemma HasPrefix_sandboxKey: "HasPrefix (sandboxKey i) sandboxKeyPrefix"
  by (simp add: HasPrefix_iff sandboxKey_def)

lemma sandboxKey_drop:
  "HasPrefix k sandboxKeyPrefix \<Longrightarrow> sandboxKey (drop (length sandboxKeyPrefix) k) = k"
  by (auto simp: HasPrefix_iff sandboxKey_def)






lemma scanned_HasPrefix: "kv \<in> set (scanned db) \<Longrightarrow> HasPrefix (fst kv) sandboxKeyPrefix"
  unfolding scanned_def by (auto dest: set_takeWhileD)

lemma scanned_subset: "kv \<in> set (scanned db) \<Longrightarrow> kv \<in> set db"
  unfolding scanned_def Seek_def by (auto dest!: set_takeWhileD set_dropWhileD)

lemma stored_sandboxes_iff:
  "PodSandboxMeta i \<in> set (stored_sandboxes db) \<longleftrightarrow> Bucket db (sandboxKey i) \<noteq> None"
proof
  assume "PodSandboxMeta i \<in> set (stored_sandboxes db)"
  then obtain kv where "kv \<in> set db" "HasPrefix (fst kv) sandboxKeyPrefix"
    "i = drop (length sandboxKeyPrefix) (fst kv)"
    by (auto simp: stored_sandboxes_def accessor_def)
  then have "sandboxKey i \<in> fst ` set db" by (simp add: sandboxKey_drop)
  then show "Bucket db (sandboxKey i) \<noteq> None"
    by (auto simp: Bucket_def map_of_eq_None_iff split: option.splits)
next
  assume "Bucket db (sandboxKey i) \<noteq> None"
  then obtain b where "map_of db (sandboxKey i) = Some b"
    by (auto simp: Bucket_def split: option.splits)
  then have "(sandboxKey i, b) \<in> set db" by (rule map_of_SomeD)
  moreover have "accessor (sandboxKey i, b) = PodSandboxMeta i"
    by (simp add: accessor_def sandboxKey_def)
  ultimately show "PodSandboxMeta i \<in> set (stored_sandboxes db)"
    unfolding stored_sandboxes_def using HasPrefix_sandboxKey [of i]
    by (metis (mono_tags, lifting) fst_conv image_eqI mem_Collect_eq set_filter set_map)
qed

subsection \<open>Retrieve and Save in closed form\<close>

lemma Save_eq:
  assumes "i \<noteq> []"
  shows "Save M U db (PodSandboxMeta i) upd =
    (case decode_stored U db i of
       (current, Some err) \<Rightarrow> (Some err, db)
     | (current, None) \<Rightarrow>
        (case upd current of
           (newData, Some err) \<Rightarrow> (Some err, db)
         | (None, None) \<Rightarrow> (None, kv_delete (sandboxKey i) db)
         | (Some newData, None) \<Rightarrow>
            (case M newData of
               (data, Some err) \<Rightarrow> (Some err, db)
             | (data, None) \<Rightarrow>
                 (None, kv_put (sandboxKey i)
                    (kv_put sandboxDataBucket data
                       (case map_of db (sandboxKey i) of None \<Rightarrow> [] | Some b \<Rightarrow> b)) db))))"
  using assms
  by (auto simp: Save_def Update_def getSandboxBucket_def CreateBucketIfNotExists_def Let_def
      retrieveSandboxFromDB_def saveSandboxToDB_def bucket_Get_def bucket_Put_def DeleteBucket_def
      decode_stored_def stored_def sandboxKey_not_Nil sandboxDataBucket_not_Nil map_of_kv_put
      kv_delete_kv_put kv_put_kv_put
      split: option.splits prod.splits)

lemma Retrieve_eq:
  assumes "i \<noteq> []"
  shows "Retrieve U db (PodSandboxMeta i) =
    (case map_of db (sandboxKey i) of
       None \<Rightarrow> (None, Some (NotFound i))
     | Some b \<Rightarrow>
        (case map_of b sandboxDataBucket of
           None \<Rightarrow> (None, None)
         | Some data \<Rightarrow>
            (case U data of
               (Some psi, None) \<Rightarrow> (Some (psi\<lparr>PodID := i\<rparr>), None)
             | (psi, err) \<Rightarrow> (psi, err))))"
  using assms
  by (auto simp: Retrieve_def View_def getSandboxBucket_def Bucket_def Let_def
      retrieveSandboxFromDB_def bucket_Get_def
      split: option.splits prod.splits)

lemma Retrieve_cong:
  "map_of db (sandboxKey (GetID m)) = map_of db' (sandboxKey (GetID m)) \<Longrightarrow>
   Retrieve U db m = Retrieve U db' m"
proof (cases m)
  case (PodSandboxMeta i)
  assume "map_of db (sandboxKey (GetID m)) = map_of db' (sandboxKey (GetID m))"
  with PodSandboxMeta show ?thesis
    by (cases "i = []") (simp_all add: Retrieve_eq, simp add: Retrieve_def)
qed

lemma Save_error_rollback: "fst (Save M U db m upd) \<noteq> None \<Longrightarrow> snd (Save M U db m upd) = db"
  by (auto simp: Save_def Update_def split: prod.splits option.splits)

lemma Save_frame:
  assumes "x \<noteq> y"
  shows "map_of (snd (Save M U db (PodSandboxMeta x) upd)) (sandboxKey y) = map_of db (sandboxKey y)"
proof (cases "x = []")
  case True
  then show ?thesis by (simp add: Save_def)
next
  case False
  with assms show ?thesis
    by (auto simp: Save_eq map_of_kv_put map_of_kv_delete sandboxKey_eq_iff
        split: prod.splits option.splits)
qed

text \<open>\<^verbatim>\<open>Save\<close> keeps the root of the store in strictly ascending key order.\<close>

lemma Save_keeps_order:
  assumes "sorted_wrt (<) (map fst db)"
  shows "sorted_wrt (<) (map fst (snd (Save M U db m upd)))"
proof (cases m)
  case (PodSandboxMeta i)
  show ?thesis
  proof (cases "i = []")
    case True
    with PodSandboxMeta assms show ?thesis by (simp add: Save_def)
  next
    case False
    with PodSandboxMeta assms show ?thesis
      by (auto simp: Save_eq kv_put_ascending kv_delete_ascending split: prod.splits option.splits)
  qed
qed

text \<open>
  The bucket handed to \<^verbatim>\<open>retrieveSandboxFromDB\<close> and \<^verbatim>\<open>saveSandboxToDB\<close> is never nil: a
  panic comes out of \<^verbatim>\<open>Retrieve\<close> or \<^verbatim>\<open>Save\<close> only if the codec or the updater returns one.
\<close>

lemma Retrieve_no_panic:
  assumes "\<forall>data. snd (U data) \<noteq> Some (Panic s)"
  shows "snd (Retrieve U db m) \<noteq> Some (Panic s)"
proof (cases m)
  case (PodSandboxMeta i)
  show ?thesis
  proof (cases "i = []")
    case True
    with PodSandboxMeta show ?thesis by (simp add: Retrieve_def)
  next
    case False
    have "snd (U data) \<noteq> Some (Panic s)" for data using assms by simp
    then have "U data \<noteq> (psi, Some (Panic s))" for data psi by (metis snd_conv)
    with False PodSandboxMeta show ?thesis
      by (auto simp: Retrieve_eq split: option.splits prod.splits)
  qed
qed

lemma Save_no_panic:
  assumes "\<forall>data. snd (U data) \<noteq> Some (Panic s)" and "\<forall>psi. snd (M psi) \<noteq> Some (Panic s)"
    and "\<forall>current. snd (upd current) \<noteq> Some (Panic s)"
  shows "fst (Save M U db m upd) \<noteq> Some (Panic s)"
proof (cases m)
  case (PodSandboxMeta i)
  show ?thesis
  proof (cases "i = []")
    case True
    with PodSandboxMeta show ?thesis by (simp add: Save_def)
  next
    case False
    have "U data \<noteq> (psi, Some (Panic s))" for data psi using assms(1) by (metis snd_conv)
    moreover have "M r \<noteq> (d, Some (Panic s))" for r d using assms(2) by (metis snd_conv)
    moreover have "upd c \<noteq> (n, Some (Panic s))" for c n using assms(3) by (metis snd_conv)
    ultimately show ?thesis using False PodSandboxMeta
      by (auto simp: Save_eq decode_stored_def split: option.splits prod.splits)
  qed
qed

subsection \<open>The scan\<close>

lemma scan_ok:
  assumes "\<forall>kv\<in>set (takeWhile (\<lambda>kv. HasPrefix (fst kv) sandboxKeyPrefix) c).
             snd (filterPodSandboxMeta U db (accessor kv) flt) = None"
  shows "scan U db flt c result =
           (result @ map accessor
              (filter (\<lambda>kv. fst (filterPodSandboxMeta U db (accessor kv) flt))
                 (takeWhile (\<lambda>kv. HasPrefix (fst kv) sandboxKeyPrefix) c)), None)"
  using assms
proof (induction c arbitrary: result)
  case Nil
  then show ?case by simp
next
  case (Cons x c)
  obtain k v where x: "x = (k, v)" by (cases x)
  show ?case
  proof (cases "HasPrefix k sandboxKeyPrefix")
    case False
    with x show ?thesis by simp
  next
    case True
    with Cons.prems x obtain fv where
      fv: "filterPodSandboxMeta U db (accessor (k, v)) flt = (fv, None)"
      by (cases "filterPodSandboxMeta U db (accessor (k, v)) flt") auto
    from Cons.prems x True have
      "\<forall>kv\<in>set (takeWhile (\<lambda>kv. HasPrefix (fst kv) sandboxKeyPrefix) c).
             snd (filterPodSandboxMeta U db (accessor kv) flt) = None" by simp
    from Cons.IH [OF this] x True fv show ?thesis by (simp add: Let_def accessor_def)
  qed
qed

lemma scan_error:
  assumes "takeWhile (\<lambda>kv. HasPrefix (fst kv) sandboxKeyPrefix) c = pre @ x # post"
    and "\<forall>kv\<in>set pre. snd (filterPodSandboxMeta U db (accessor kv) flt) = None"
    and "snd (filterPodSandboxMeta U db (accessor x) flt) = Some e"
  shows "snd (scan U db flt c result) = Some e"
  using assms
proof (induction pre arbitrary: c result)
  case Nil
  then obtain c' where c: "c = x # c'" and px: "HasPrefix (fst x) sandboxKeyPrefix"
    by (cases c) (auto split: if_splits)
  obtain k v where x: "x = (k, v)" by (cases x)
  from Nil.prems(3) x obtain fv where
    "filterPodSandboxMeta U db (accessor (k, v)) flt = (fv, Some e)"
    by (cases "filterPodSandboxMeta U db (accessor (k, v)) flt") auto
  with c x px show ?case by (simp add: Let_def accessor_def)
next
  case (Cons y pre)
  then obtain c' where c: "c = y # c'" and py: "HasPrefix (fst y) sandboxKeyPrefix"
    and c': "takeWhile (\<lambda>kv. HasPrefix (fst kv) sandboxKeyPrefix) c' = pre @ x # post"
    by (cases c) (auto split: if_splits)
  obtain k v where y: "y = (k, v)" by (cases y)
  from Cons.prems(2) y obtain fv where
    fv: "filterPodSandboxMeta U db (accessor (k, v)) flt = (fv, None)"
    by (cases "filterPodSandboxMeta U db (accessor (k, v)) flt") auto
  from Cons.prems(2) have "\<forall>kv\<in>set pre. snd (filterPodSandboxMeta U db (accessor kv) flt) = None"
    by simp
  from Cons.IH [OF c' this Cons.prems(3)] c y py fv show ?case by (simp add: Let_def accessor_def)
qed

lemma ListPodSandboxes_ok:
  assumes "\<forall>kv\<in>set (scanned db). snd (filterPodSandboxMeta U db (accessor kv) flt) = None"
  shows "ListPodSandboxes U db flt =
           (map accessor (filter (\<lambda>kv. fst (filterPodSandboxMeta U db (accessor kv) flt)) (scanned db)), None)"
  using scan_ok [of "Seek db sandboxKeyPrefix" U db flt "[]"] assms
  by (simp add: ListPodSandboxes_def View_def scanned_def)

lemma ListPodSandboxes_error:
  assumes "scanned db = pre @ x # post"
    and "\<forall>kv\<in>set pre. snd (filterPodSandboxMeta U db (accessor kv) flt) = None"
    and "snd (filterPodSandboxMeta U db (accessor x) flt) = Some e"
  shows "ListPodSandboxes U db flt = ([], Some e)"
  using scan_error [of "Seek db sandboxKeyPrefix" pre x post U db flt e "[]"] assms
  by (auto simp: ListPodSandboxes_def View_def scanned_def split: prod.splits option.splits)

lemma ListPodSandboxes_nil_on_error:
  "snd (ListPodSandboxes U db flt) \<noteq> None \<Longrightarrow> fst (ListPodSandboxes U db flt) = []"
  by (auto simp: ListPodSandboxes_def split: prod.splits option.splits)


lemma filter_other_id:
  "Id f \<noteq> [] \<Longrightarrow> GetID psm \<noteq> Id f \<Longrightarrow> filterPodSandboxMeta U db psm (Some f) = (False, None)"
  by (simp add: filterPodSandboxMeta_def)


lemma filter_no_data:
  assumes "Id f = [] \<or> Id f = GetID psm" and "Retrieve U db psm = (None, None)"
  shows "filterPodSandboxMeta U db psm (Some f) = (False, Some (DataInconsistency (GetID psm)))"
  using assms by (auto simp: filterPodSandboxMeta_def)

lemma filter_retrieve_error:
  assumes "Id f = [] \<or> Id f = GetID psm" and "Retrieve U db psm = (psi, Some err)"
  shows "filterPodSandboxMeta U db psm (Some f) = (False, Some err)"
  using assms by (auto simp: filterPodSandboxMeta_def split: option.splits)

section \<open>The claims\<close>

text \<open>
  Claim C1 (round trip). As stated the claim fails: \<^verbatim>\<open>Save\<close> decodes the payload already
  held for the id before it calls the updater and returns the decoding error when there
  is one. The property proved: for a non-empty id \<open>i\<close> whose current payload, if any,
  decodes without error, an updater that returns \<open>(R, nil)\<close> on the decoded current value,
  and a record \<open>R\<close> that the codec writes and reads back unchanged up to the id field,
  \<^verbatim>\<open>Save\<close> returns no error and \<^verbatim>\<open>Retrieve\<close> on the resulting store returns \<open>R\<close> with its id
  field set to \<open>i\<close>.
\<close>

theorem C1_round_trip:
  assumes "i \<noteq> []" and "decode_stored U db i = (current, None)"
    and "upd current = (Some R, None)" and "M R = (data, None)"
    and "U data = (Some R', None)" and "R'\<lparr>PodID := i\<rparr> = R\<lparr>PodID := i\<rparr>"
  shows "fst (Save M U db (PodSandbox i) upd) = None \<and>
         Retrieve U (snd (Save M U db (PodSandbox i) upd)) (PodSandbox i) = (Some (R\<lparr>PodID := i\<rparr>), None)"
  using assms
  by (simp add: Save_eq Retrieve_eq PodSandbox_def map_of_kv_put)

text \<open>The round trip at the id \<open>c\<close>, which has no region in the example store.\<close>

theorem C1_witness:
  "''c'' \<noteq> [] \<and> decode_stored example_Unmarshal db_example ''c'' = (None, None) \<and>
   put_updater rec_ready None = (Some rec_ready, None) \<and>
   example_Marshal rec_ready = (''ready'', None) \<and>
   example_Unmarshal ''ready''
     = (Some \<lparr>PodID = [], State = SANDBOX_READY, Config = \<lparr>Labels = []\<rparr>\<rparr>, None) \<and>
   fst (Save example_Marshal example_Unmarshal db_example (PodSandbox ''c'') (put_updater rec_ready))
     = None \<and>
   Retrieve example_Unmarshal
     (snd (Save example_Marshal example_Unmarshal db_example (PodSandbox ''c'') (put_updater rec_ready)))
     (PodSandbox ''c'')
     = (Some \<lparr>PodID = ''c'', State = SANDBOX_READY, Config = \<lparr>Labels = []\<rparr>\<rparr>, None)"
proof -
  have h1: "''c'' \<noteq> []" by simp
  have h2: "decode_stored example_Unmarshal db_example ''c'' = (None, None)" by code_simp
  have h3: "put_updater rec_ready None = (Some rec_ready, None)" by (simp add: put_updater_def)
  have h4: "example_Marshal rec_ready = (''ready'', None)"
    by (simp add: example_Marshal_def rec_ready_def)
  have h5: "example_Unmarshal ''ready''
     = (Some \<lparr>PodID = [], State = SANDBOX_READY, Config = \<lparr>Labels = []\<rparr>\<rparr>, None)"
    by (simp add: example_Unmarshal_def)
  have h6: "\<lparr>PodID = [], State = SANDBOX_READY, Config = \<lparr>Labels = []\<rparr>\<rparr>\<lparr>PodID := ''c''\<rparr>
     = rec_ready\<lparr>PodID := ''c''\<rparr>" by (simp add: rec_ready_def)
  from C1_round_trip [where i = "''c''" and db = db_example and upd = "put_updater rec_ready"
      and current = None and R = rec_ready and data = "''ready''"
      and R' = "\<lparr>PodID = [], State = SANDBOX_READY, Config = \<lparr>Labels = []\<rparr>\<rparr>"
      and M = example_Marshal and U = example_Unmarshal, OF h1 h2 h3 h4 h5 h6] h1 h2 h3 h4 h5
  show ?thesis by (simp add: rec_ready_def)
qed

text \<open>
  On a store whose payload for \<open>a\<close> does not decode, \<^verbatim>\<open>Save\<close> with an updater returning a
  valid record fails with the decoding error, and so does the \<^verbatim>\<open>Retrieve\<close> that follows.
\<close>

theorem C1_counterexample:
  "''a'' \<noteq> [] \<and>
   example_Marshal rec_ready = (''ready'', None) \<and>
   example_Unmarshal ''ready''
     = (Some \<lparr>PodID = [], State = SANDBOX_READY, Config = \<lparr>Labels = []\<rparr>\<rparr>, None) \<and>
   put_updater rec_ready None = (Some rec_ready, None) \<and>
   Save example_Marshal example_Unmarshal db_corrupt (PodSandbox ''a'') (put_updater rec_ready)
     = (Some (ErrorString ''invalid character''), db_corrupt) \<and>
   Retrieve example_Unmarshal
     (snd (Save example_Marshal example_Unmarshal db_corrupt (PodSandbox ''a'') (put_updater rec_ready)))
     (PodSandbox ''a'') = (None, Some (ErrorString ''invalid character''))"
  by code_simp

text \<open>
  Claim C2 (updater-error atomicity). As stated the claim fails: when the payload held for
  the id does not decode, \<^verbatim>\<open>Save\<close> returns the decoding error and never calls the updater.
  The property proved: for a non-empty id \<open>i\<close> whose current payload, if any, decodes
  without error, and an updater that returns the error \<open>e\<close> on the decoded current value,
  \<^verbatim>\<open>Save\<close> returns exactly \<open>e\<close> and the store is the one before the call (so a region that
  was absent is still absent). Moreover any \<^verbatim>\<open>Save\<close> that returns an error leaves the
  store as it was.
\<close>

theorem C2_updater_error:
  assumes "i \<noteq> []" and "decode_stored U db i = (current, None)" and "snd (upd current) = Some e"
  shows "Save M U db (PodSandbox i) upd = (Some e, db) \<and>
         (fst (Save M U db m upd') \<noteq> None \<longrightarrow> snd (Save M U db m upd') = db)"
  using assms Save_error_rollback [of M U db m upd']
  by (auto simp: Save_eq PodSandbox_def split: prod.splits option.splits)

text \<open>An updater error at the id \<open>c\<close>, whose region the transaction had created.\<close>

theorem C2_witness:
  "''c'' \<noteq> [] \<and> decode_stored example_Unmarshal db_example ''c'' = (None, None) \<and>
   snd (fail_updater (ErrorString ''boom'') None) = Some (ErrorString ''boom'') \<and>
   Save example_Marshal example_Unmarshal db_example (PodSandbox ''c'')
     (fail_updater (ErrorString ''boom'')) = (Some (ErrorString ''boom''), db_example)"
proof -
  have h1: "''c'' \<noteq> []" by simp
  have h2: "decode_stored example_Unmarshal db_example ''c'' = (None, None)" by code_simp
  have h3: "snd (fail_updater (ErrorString ''boom'') None) = Some (ErrorString ''boom'')"
    by (simp add: fail_updater_def)
  from C2_updater_error [where i = "''c''" and db = db_example
      and upd = "fail_updater (ErrorString ''boom'')" and current = None
      and e = "ErrorString ''boom''" and M = example_Marshal and U = example_Unmarshal, OF h1 h2 h3] h1 h2 h3
  show ?thesis by blast
qed

text \<open>
  On a store whose payload for \<open>a\<close> does not decode, \<^verbatim>\<open>Save\<close> with an updater that returns
  the error \<open>boom\<close> returns the decoding error instead.
\<close>

theorem C2_counterexample:
  "''a'' \<noteq> [] \<and>
   fail_updater (ErrorString ''boom'') None = (None, Some (ErrorString ''boom'')) \<and>
   Save example_Marshal example_Unmarshal db_corrupt (PodSandbox ''a'')
     (fail_updater (ErrorString ''boom'')) = (Some (ErrorString ''invalid character''), db_corrupt) \<and>
   fst (Save example_Marshal example_Unmarshal db_corrupt (PodSandbox ''a'')
     (fail_updater (ErrorString ''boom''))) \<noteq> Some (ErrorString ''boom'')"
  by code_simp

text \<open>
  Claim C3 (delete via updater). For a non-empty id \<open>i\<close> whose region holds a payload that
  decodes to a record \<open>r\<close>, \<^verbatim>\<open>Save\<close> with an updater returning \<open>(nil, nil)\<close> on \<open>r\<close> returns no
  error, removes the whole region of \<open>i\<close> from the store, and a following \<^verbatim>\<open>Retrieve\<close>
  fails with the not-found error for \<open>i\<close>.
\<close>

theorem C3_delete_via_updater:
  assumes "i \<noteq> []" and "stored db i = Some data" and "U data = (Some r, None)"
    and "upd (Some r) = (None, None)"
  shows "Save M U db (PodSandbox i) upd = (None, kv_delete (sandboxKey i) db) \<and>
         Bucket (snd (Save M U db (PodSandbox i) upd)) (sandboxKey i) = None \<and>
         Retrieve U (snd (Save M U db (PodSandbox i) upd)) (PodSandbox i) = (None, Some (NotFound i))"
proof -
  from assms(2,3) have "decode_stored U db i = (Some r, None)"
    by (simp add: decode_stored_def)
  with assms(1,4) have save: "Save M U db (PodSandbox i) upd = (None, kv_delete (sandboxKey i) db)"
    by (simp add: Save_eq PodSandbox_def)
  have gone: "map_of (kv_delete (sandboxKey i) db) (sandboxKey i) = None"
    by (simp add: map_of_kv_delete)
  from assms(1) gone have "Retrieve U (kv_delete (sandboxKey i) db) (PodSandbox i) = (None, Some (NotFound i))"
    by (simp add: Retrieve_eq PodSandbox_def)
  with save gone show ?thesis by (simp add: Bucket_def)
qed

text \<open>Deleting the sandbox \<open>a\<close> of the example store.\<close>

theorem C3_witness:
  "''a'' \<noteq> [] \<and> stored db_example ''a'' = Some ''ready'' \<and>
   example_Unmarshal ''ready''
     = (Some \<lparr>PodID = [], State = SANDBOX_READY, Config = \<lparr>Labels = []\<rparr>\<rparr>, None) \<and>
   delete_updater (Some \<lparr>PodID = [], State = SANDBOX_READY, Config = \<lparr>Labels = []\<rparr>\<rparr>)
     = (None, None) \<and>
   Save example_Marshal example_Unmarshal db_example (PodSandbox ''a'') delete_updater
     = (None, [(''containers/c1'', [(''data'', ''x'')]), (''sandboxes/b'', [(''data'', ''notready'')])]) \<and>
   Retrieve example_Unmarshal
     (snd (Save example_Marshal example_Unmarshal db_example (PodSandbox ''a'') delete_updater))
     (PodSandbox ''a'') = (None, Some (NotFound ''a''))"
proof -
  have h1: "''a'' \<noteq> []" by simp
  have h2: "stored db_example ''a'' = Some ''ready''" by code_simp
  have h3: "example_Unmarshal ''ready''
     = (Some \<lparr>PodID = [], State = SANDBOX_READY, Config = \<lparr>Labels = []\<rparr>\<rparr>, None)"
    by (simp add: example_Unmarshal_def)
  have h4: "delete_updater (Some \<lparr>PodID = [], State = SANDBOX_READY, Config = \<lparr>Labels = []\<rparr>\<rparr>)
     = (None, None)" by (simp add: delete_updater_def)
  have d: "kv_delete (sandboxKey ''a'') db_example
     = [(''containers/c1'', [(''data'', ''x'')]), (''sandboxes/b'', [(''data'', ''notready'')])]"
    by code_simp
  note c = C3_delete_via_updater [where i = "''a''" and db = db_example and upd = delete_updater
      and M = example_Marshal and U = example_Unmarshal and data = "''ready''"
      and r = "\<lparr>PodID = [], State = SANDBOX_READY, Config = \<lparr>Labels = []\<rparr>\<rparr>", OF h1 h2 h3 h4]
  from c d have "Save example_Marshal example_Unmarshal db_example (PodSandbox ''a'') delete_updater
     = (None, [(''containers/c1'', [(''data'', ''x'')]), (''sandboxes/b'', [(''data'', ''notready'')])])"
    by simp
  with c h1 h2 h3 h4 show ?thesis by blast
qed

text \<open>
  Claim C4 (idempotent delete). For a non-empty id \<open>i\<close> that has no region, \<^verbatim>\<open>Save\<close> with an
  updater returning \<open>(nil, nil)\<close> returns no error and leaves the store as it was, with no
  region for \<open>i\<close>; a second such \<^verbatim>\<open>Save\<close> has the same outcome.
\<close>

theorem C4_idempotent_delete:
  assumes "i \<noteq> []" and "Bucket db (sandboxKey i) = None" and "upd None = (None, None)"
  shows "Save M U db (PodSandbox i) upd = (None, db) \<and>
         Bucket (snd (Save M U db (PodSandbox i) upd)) (sandboxKey i) = None \<and>
         Save M U (snd (Save M U db (PodSandbox i) upd)) (PodSandbox i) upd = (None, db)"
proof -
  from assms(2) have absent: "map_of db (sandboxKey i) = None"
    by (auto simp: Bucket_def split: option.splits)
  then have "decode_stored U db i = (None, None)"
    by (simp add: decode_stored_def stored_def bucket_Get_def)
  with assms(1,3) absent have "Save M U db (PodSandbox i) upd = (None, db)"
    by (simp add: Save_eq PodSandbox_def kv_delete_absent)
  with assms(2) show ?thesis by simp
qed

text \<open>Deleting the absent sandbox \<open>c\<close> from the example store.\<close>

theorem C4_witness:
  "''c'' \<noteq> [] \<and> Bucket db_example (sandboxKey ''c'') = None \<and>
   delete_updater None = (None, None) \<and>
   Save example_Marshal example_Unmarshal db_example (PodSandbox ''c'') delete_updater
     = (None, db_example)"
proof -
  have h1: "''c'' \<noteq> []" by simp
  have h2: "Bucket db_example (sandboxKey ''c'') = None" by code_simp
  have h3: "delete_updater None = (None, None)" by (simp add: delete_updater_def)
  from C4_idempotent_delete [where i = "''c''" and db = db_example and upd = delete_updater
      and M = example_Marshal and U = example_Unmarshal, OF h1 h2 h3] h1 h2 h3
  show ?thesis by blast
qed

text \<open>
  Claim C5 (absence taxonomy of Retrieve). For a non-empty id \<open>i\<close>: when the region of \<open>i\<close>
  does not exist \<^verbatim>\<open>Retrieve\<close> fails with the not-found error for \<open>i\<close>; when the region exists
  and its payload slot is absent \<^verbatim>\<open>Retrieve\<close> returns no record and no error.
\<close>

theorem C5_retrieve_absence:
  assumes "i \<noteq> []"
  shows "(Bucket db (sandboxKey i) = None \<longrightarrow>
            Retrieve U db (PodSandbox i) = (None, Some (NotFound i))) \<and>
         (Bucket db (sandboxKey i) \<noteq> None \<and> bucket_Get db (sandboxKey i) sandboxDataBucket = None \<longrightarrow>
            Retrieve U db (PodSandbox i) = (None, None))"
  using assms
  by (auto simp: Retrieve_eq PodSandbox_def Bucket_def bucket_Get_def split: option.splits)

text \<open>Both kinds of absence in one store: \<open>zz\<close> has no region, \<open>b\<close> an empty one.\<close>

theorem C5_witness:
  "Bucket db_empty_slot (sandboxKey ''zz'') = None \<and>
   Retrieve example_Unmarshal db_empty_slot (PodSandbox ''zz'') = (None, Some (NotFound ''zz'')) \<and>
   Bucket db_empty_slot (sandboxKey ''b'') \<noteq> None \<and>
   bucket_Get db_empty_slot (sandboxKey ''b'') sandboxDataBucket = None \<and>
   Retrieve example_Unmarshal db_empty_slot (PodSandbox ''b'') = (None, None)"
proof -
  have n1: "''zz'' \<noteq> []" and n2: "''b'' \<noteq> []" by simp_all
  have h1: "Bucket db_empty_slot (sandboxKey ''zz'') = None" by code_simp
  have h2: "Bucket db_empty_slot (sandboxKey ''b'') \<noteq> None" by code_simp
  have h3: "bucket_Get db_empty_slot (sandboxKey ''b'') sandboxDataBucket = None" by code_simp
  from C5_retrieve_absence [where i = "''zz''" and db = db_empty_slot and U = example_Unmarshal, OF n1]
    C5_retrieve_absence [where i = "''b''" and db = db_empty_slot and U = example_Unmarshal, OF n2]
    h1 h2 h3
  show ?thesis by simp
qed

text \<open>
  Claim C6 (empty-id rejection). On the accessor bound to the empty id, \<^verbatim>\<open>Retrieve\<close> and
  \<^verbatim>\<open>Save\<close> both fail with the invalid-argument error, whatever the store, the codec and
  the updater are: no transaction is run, the updater is not called and \<^verbatim>\<open>Save\<close> returns
  the store unchanged.
\<close>

theorem C6_empty_id_rejected:
  "Retrieve U db (PodSandbox []) = (None, Some InvalidArgument) \<and>
   Save M U db (PodSandbox []) upd = (Some InvalidArgument, db)"
  by (simp add: Retrieve_def Save_def PodSandbox_def)

text \<open>The empty id on the example store.\<close>

theorem C6_witness:
  "Retrieve example_Unmarshal db_example (PodSandbox []) = (None, Some InvalidArgument) \<and>
   Save example_Marshal example_Unmarshal db_example (PodSandbox []) (put_updater rec_ready)
     = (Some InvalidArgument, db_example)"
  by (rule C6_empty_id_rejected)




text \<open>
  Claim C8 (id short-circuit). When the store has no region for the non-empty id \<open>z\<close>,
  \<^verbatim>\<open>ListPodSandboxes\<close> with a filter whose id constraint is \<open>z\<close> returns the empty list and
  no error. This holds for every codec and whatever the regions of the store contain, so no
  payload is read or decoded on the way.
\<close>

theorem C8_id_short_circuit:
  assumes "z \<noteq> []" and "Id f = z" and "Bucket db (sandboxKey z) = None"
  shows "ListPodSandboxes U db (Some f) = ([], None)"
proof -
  have other: "GetID (accessor kv) \<noteq> z" if "kv \<in> set (scanned db)" for kv
  proof
    assume "GetID (accessor kv) = z"
    with scanned_HasPrefix [OF that] have "fst kv = sandboxKey z"
      by (auto simp: accessor_def sandboxKey_drop)
    with scanned_subset [OF that] have "sandboxKey z \<in> fst ` set db" by force
    with assms(3) show False
      by (auto simp: Bucket_def map_of_eq_None_iff split: option.splits)
  qed
  then have no: "filterPodSandboxMeta U db (accessor kv) (Some f) = (False, None)"
    if "kv \<in> set (scanned db)" for kv
    using that assms(1,2) by (simp add: filter_other_id)
  then have "\<forall>kv\<in>set (scanned db). snd (filterPodSandboxMeta U db (accessor kv) (Some f)) = None"
    by simp
  from ListPodSandboxes_ok [OF this] no show ?thesis
    by (simp add: filter_empty_conv)
qed

text \<open>The filter on \<open>zzz\<close> over a store in which the payload of \<open>b\<close> does not decode.\<close>

theorem C8_witness:
  "''zzz'' \<noteq> [] \<and> Id zzz_filter = ''zzz'' \<and> Bucket db_mixed (sandboxKey ''zzz'') = None \<and>
   Retrieve example_Unmarshal db_mixed (PodSandbox ''b'')
     = (None, Some (ErrorString ''invalid character'')) \<and>
   ListPodSandboxes example_Unmarshal db_mixed (Some zzz_filter) = ([], None)"
proof -
  have h1: "''zzz'' \<noteq> []" by simp
  have h2: "Id zzz_filter = ''zzz''" by (simp add: zzz_filter_def)
  have h3: "Bucket db_mixed (sandboxKey ''zzz'') = None" by code_simp
  have r: "Retrieve example_Unmarshal db_mixed (PodSandbox ''b'')
     = (None, Some (ErrorString ''invalid character''))" by code_simp
  from C8_id_short_circuit [where z = "''zzz''" and f = zzz_filter and db = db_mixed
      and U = example_Unmarshal, OF h1 h2 h3] h1 h2 h3 r
  show ?thesis by blast
qed

text \<open>
  Claim C9 (the scan aborts on the first error). Let \<open>x\<close> be a scanned entry such that the
  predicate returns no error on the entries scanned before it. If the predicate fails on
  \<open>x\<close> with \<open>e\<close>, \<^verbatim>\<open>ListPodSandboxes\<close> returns \<open>e\<close> and the nil list. In particular, under a
  non-nil filter that does not exclude the id of \<open>x\<close>: when \<^verbatim>\<open>Retrieve\<close> finds no payload for
  \<open>x\<close> the result is the no-data error for that id, and when \<^verbatim>\<open>Retrieve\<close> fails (as on a
  payload that does not decode) the result is that error; the list is nil in both cases.
\<close>

theorem C9_scan_aborts:
  assumes "scanned db = pre @ x # post"
    and "\<forall>kv\<in>set pre. snd (filterPodSandboxMeta U db (accessor kv) flt) = None"
  shows "(snd (filterPodSandboxMeta U db (accessor x) flt) = Some e \<longrightarrow>
            ListPodSandboxes U db flt = ([], Some e)) \<and>
         (flt = Some f \<and> (Id f = [] \<or> Id f = GetID (accessor x)) \<and>
          Retrieve U db (accessor x) = (None, None) \<longrightarrow>
            ListPodSandboxes U db flt = ([], Some (DataInconsistency (GetID (accessor x))))) \<and>
         (flt = Some f \<and> (Id f = [] \<or> Id f = GetID (accessor x)) \<and>
          Retrieve U db (accessor x) = (psi, Some err) \<longrightarrow>
            ListPodSandboxes U db flt = ([], Some err))"
  using ListPodSandboxes_error [OF assms]
  by (auto simp: filter_no_data filter_retrieve_error)

text \<open>Three sandboxes, the second with an empty payload slot.\<close>

theorem C9_witness:
  "scanned db_empty_slot
     = [(''sandboxes/a'', [(''data'', ''ready'')])] @ (''sandboxes/b'', []) # [(''sandboxes/c'', [(''data'', ''ready'')])] \<and>
   snd (filterPodSandboxMeta example_Unmarshal db_empty_slot
          (accessor (''sandboxes/a'', [(''data'', ''ready'')])) (Some empty_filter)) = None \<and>
   Retrieve example_Unmarshal db_empty_slot (accessor (''sandboxes/b'', [])) = (None, None) \<and>
   ListPodSandboxes example_Unmarshal db_empty_slot (Some empty_filter)
     = ([], Some (DataInconsistency ''b''))"
proof -
  have h1: "scanned db_empty_slot
     = [(''sandboxes/a'', [(''data'', ''ready'')])] @ (''sandboxes/b'', []) # [(''sandboxes/c'', [(''data'', ''ready'')])]"
    by code_simp
  have a: "snd (filterPodSandboxMeta example_Unmarshal db_empty_slot
          (accessor (''sandboxes/a'', [(''data'', ''ready'')])) (Some empty_filter)) = None"
    by code_simp
  then have h2: "\<forall>kv\<in>set [(''sandboxes/a'', [(''data'', ''ready'')])].
      snd (filterPodSandboxMeta example_Unmarshal db_empty_slot (accessor kv) (Some empty_filter)) = None"
    by simp
  have r: "Retrieve example_Unmarshal db_empty_slot (accessor (''sandboxes/b'', [])) = (None, None)"
    by code_simp
  have f: "Id empty_filter = []" by (simp add: empty_filter_def)
  have i: "GetID (accessor (''sandboxes/b'', [])) = ''b''" by code_simp
  from C9_scan_aborts [where db = db_empty_slot and U = example_Unmarshal
      and flt = "Some empty_filter" and f = empty_filter, OF h1 h2] r f
  have "ListPodSandboxes example_Unmarshal db_empty_slot (Some empty_filter)
     = ([], Some (DataInconsistency (GetID (accessor (''sandboxes/b'', [])))))"
    by blast
  with i have "ListPodSandboxes example_Unmarshal db_empty_slot (Some empty_filter)
     = ([], Some (DataInconsistency ''b''))" by simp
  with h1 a r show ?thesis by blast
qed

text \<open>
  Claim C10 (frame). For distinct ids \<open>x\<close> and \<open>y\<close>, whatever \<^verbatim>\<open>Save\<close> does on the accessor
  bound to \<open>x\<close> (create, update, delete, or fail and roll back), the region of \<open>y\<close> and the
  bytes in it are the same before and after, and \<^verbatim>\<open>Retrieve\<close> on the accessor bound to \<open>y\<close>
  returns the same result.
\<close>

theorem C10_frame:
  assumes "x \<noteq> y"
  shows "map_of (snd (Save M U db (PodSandbox x) upd)) (sandboxKey y) = map_of db (sandboxKey y) \<and>
         Retrieve U' (snd (Save M U db (PodSandbox x) upd)) (PodSandbox y) = Retrieve U' db (PodSandbox y)"
proof -
  have frame: "map_of (snd (Save M U db (PodSandbox x) upd)) (sandboxKey y) = map_of db (sandboxKey y)"
    using Save_frame [OF assms] by (simp add: PodSandbox_def)
  then have "Retrieve U' (snd (Save M U db (PodSandbox x) upd)) (PodSandbox y) = Retrieve U' db (PodSandbox y)"
    by (intro Retrieve_cong) (simp add: PodSandbox_def)
  with frame show ?thesis by simp
qed

text \<open>Deleting \<open>a\<close> from the example store leaves \<open>b\<close> as it was.\<close>

theorem C10_witness:
  "''a'' \<noteq> ''b'' \<and>
   Save example_Marshal example_Unmarshal db_example (PodSandbox ''a'') delete_updater
     = (None, [(''containers/c1'', [(''data'', ''x'')]), (''sandboxes/b'', [(''data'', ''notready'')])]) \<and>
   map_of (snd (Save example_Marshal example_Unmarshal db_example (PodSandbox ''a'') delete_updater))
     (sandboxKey ''b'') = Some [(''data'', ''notready'')] \<and>
   Retrieve example_Unmarshal
     (snd (Save example_Marshal example_Unmarshal db_example (PodSandbox ''a'') delete_updater))
     (PodSandbox ''b'')
     = (Some \<lparr>PodID = ''b'', State = SANDBOX_NOTREADY, Config = \<lparr>Labels = []\<rparr>\<rparr>, None)"
proof -
  have h1: "''a'' \<noteq> ''b''" by simp
  have s: "Save example_Marshal example_Unmarshal db_example (PodSandbox ''a'') delete_updater
     = (None, [(''containers/c1'', [(''data'', ''x'')]), (''sandboxes/b'', [(''data'', ''notready'')])])"
    by code_simp
  have m: "map_of db_example (sandboxKey ''b'') = Some [(''data'', ''notready'')]" by code_simp
  have r: "Retrieve example_Unmarshal db_example (PodSandbox ''b'')
     = (Some \<lparr>PodID = ''b'', State = SANDBOX_NOTREADY, Config = \<lparr>Labels = []\<rparr>\<rparr>, None)"
    by code_simp
  from C10_frame [where x = "''a''" and y = "''b''" and db = db_example and upd = delete_updater
      and M = example_Marshal and U = example_Unmarshal and U' = example_Unmarshal, OF h1]
  have "map_of (snd (Save example_Marshal example_Unmarshal db_example (PodSandbox ''a'') delete_updater))
     (sandboxKey ''b'') = map_of db_example (sandboxKey ''b'')"
    and "Retrieve example_Unmarshal
     (snd (Save example_Marshal example_Unmarshal db_example (PodSandbox ''a'') delete_updater))
     (PodSandbox ''b'') = Retrieve example_Unmarshal db_example (PodSandbox ''b'')"
    by blast+
  with h1 s m r show ?thesis by (simp only: simp_thms)
qed

end
